theory Spec2Isabelle
  imports Main "HOL-Library.Sublist" "HOL-Library.Code_Target_Nat"
begin

section \<open>JavaScript values and thrown errors\<close>

text \<open>
  The arguments the connection methods receive are JavaScript values. Only the part that the
  methods of \<^verbatim>\<open>lib/solr-connection.js\<close> inspect is kept: truthiness, property lookup on plain
  objects, arrays, and model classes (functions that answer \<^verbatim>\<open>getModelName()\<close>).
  Numbers are integers here; \<^verbatim>\<open>NaN\<close> is not represented.
\<close>

datatype js_value =
    Undefined
  | Null
  | Bool bool
  | Num int
  | Str string
  | Arr "js_value list"
  | Obj "(string \<times> js_value) list"
  | ModelClass string

text \<open>
  A thrown value: the constructor that built it and its message. Every \<^verbatim>\<open>throw\<close> of the module
  uses \<^verbatim>\<open>new Error(...)\<close>; \<^verbatim>\<open>ReferenceError\<close> and \<^verbatim>\<open>TypeError\<close> are the ones the
  language itself raises (an undeclared identifier, a call of something that is not a function).
\<close>

datatype js_error =
    Error string
  | ReferenceError string
  | TypeError string

type_synonym js_result = "js_error + js_value"

fun message :: "js_error \<Rightarrow> string" where
  "message (Error m) = m"
| "message (ReferenceError m) = m"
| "message (TypeError m) = m"

text \<open>\<^verbatim>\<open>!v\<close> is \<open>\<not> truthy v\<close>.\<close>

fun truthy :: "js_value \<Rightarrow> bool" where
  "truthy Undefined = False"
| "truthy Null = False"
| "truthy (Bool b) = b"
| "truthy (Num n) = (n \<noteq> 0)"
| "truthy (Str s) = (s \<noteq> [])"
| "truthy (Arr xs) = True"
| "truthy (Obj kvs) = True"
| "truthy (ModelClass n) = True"

text \<open>
  \<^verbatim>\<open>v.key\<close> and \<^verbatim>\<open>v[key]\<close> for a truthy \<open>v\<close>: an own property of a plain object,
  \<^verbatim>\<open>undefined\<close> otherwise. Indexing into an array or a string is not represented; the only
  place of the module that could do it lies behind the failing \<^verbatim>\<open>Utils\<close> lookup.
\<close>

fun get_prop :: "js_value \<Rightarrow> string \<Rightarrow> js_value" where
  "get_prop (Obj kvs) k = (case map_of kvs k of Some v \<Rightarrow> v | None \<Rightarrow> Undefined)"
| "get_prop v k = Undefined"

section \<open>The connection object\<close>

text \<open>
  \<^verbatim>\<open>new HTTPClient()\<close> yields a fresh object each time it runs. The runtime keeps the
  clients constructed so far, in construction order; a client is identified by its position.
  No method of the module ever closes or removes a client.
\<close>

type_synonym http_client = nat

record runtime =
  http_clients :: "http_client list"

definition new_HTTPClient :: "runtime \<Rightarrow> http_client \<times> runtime" where
  "new_HTTPClient rt =
     (length (http_clients rt),
      rt\<lparr>http_clients := http_clients rt @ [length (http_clients rt)]\<rparr>)"

datatype query_generator =
    SOLRQueryGenerator
  | ProvidedQueryGenerator js_value

text \<open>
  The fields of a \<^verbatim>\<open>SOLRConnection\<close> instance that this module reads or writes:
  \<^verbatim>\<open>this.constructor.name\<close>, the query generator, and \<^verbatim>\<open>this.httpClient\<close>
  (\<^verbatim>\<open>null\<close> is \<open>None\<close>).
\<close>

record connection =
  constructor_name :: string
  queryGenerator :: query_generator
  httpClient :: "http_client option"

text \<open>
  The constructor. The base class constructor keeps a query generator passed in the options;
  otherwise a \<^verbatim>\<open>SOLRQueryGenerator\<close> is installed. \<^verbatim>\<open>httpClient\<close> starts as \<^verbatim>\<open>null\<close>.
\<close>

definition new_SOLRConnection :: "js_value \<Rightarrow> connection" where
  "new_SOLRConnection options =
     \<lparr>constructor_name = ''SOLRConnection'',
      queryGenerator =
        (if \<not> (truthy options \<and> truthy (get_prop options ''queryGenerator''))
         then SOLRQueryGenerator
         else ProvidedQueryGenerator (get_prop options ''queryGenerator'')),
      httpClient = None\<rparr>"

definition isStarted :: "connection \<Rightarrow> bool" where
  "isStarted this = (httpClient this \<noteq> None)"

definition start :: "runtime \<times> connection \<Rightarrow> runtime \<times> connection" where
  "start s =
     (case s of (rt, this) \<Rightarrow>
        (case new_HTTPClient rt of (client, rt') \<Rightarrow>
           (rt', this\<lparr>httpClient := Some client\<rparr>)))"

definition stop :: "runtime \<times> connection \<Rightarrow> runtime \<times> connection" where
  "stop s = (case s of (rt, this) \<Rightarrow> (rt, this\<lparr>httpClient := None\<rparr>))"

section \<open>Schema operations\<close>

text \<open>
  An \<^verbatim>\<open>async\<close> method returns a promise; a rejected promise is \<open>Inl\<close> of the thrown value,
  a fulfilled one \<open>Inr\<close> of the returned value. None of the methods below assigns to \<^verbatim>\<open>this\<close>,
  so they return no new connection. Each body is the single \<^verbatim>\<open>throw\<close> of the source, with the
  message as the source spells it.
\<close>

definition dropTable :: "connection \<Rightarrow> js_value \<Rightarrow> js_value \<Rightarrow> js_result" where
  "dropTable this Model options =
     Inl (Error (constructor_name this @ ''::dropTable: This operation is not supported for this connection type.''))"

definition createTable :: "connection \<Rightarrow> js_value \<Rightarrow> js_value \<Rightarrow> js_result" where
  "createTable this Model options =
     Inl (Error (constructor_name this @ ''::createTable: This operation is not supported for this connection type.''))"

definition defineTable :: "connection \<Rightarrow> js_result" where
  "defineTable this =
     Inl (Error (constructor_name this @ ''::defineTable: This operation is not supported for this connection type.''))"

definition defineConstraints :: "connection \<Rightarrow> js_result" where
  "defineConstraints this =
     Inl (Error (constructor_name this @ ''::defineConstraints: This operation is not supported for this connection type.''))"

definition defineIndexes :: "connection \<Rightarrow> js_result" where
  "defineIndexes this =
     Inl (Error (constructor_name this @ ''::defineIndexes: This operation is not supported for this connection type.''))"

definition alterTable :: "connection \<Rightarrow> js_value \<Rightarrow> js_value \<Rightarrow> js_value \<Rightarrow> js_result" where
  "alterTable this Model newModelAttributes options =
     Inl (Error (constructor_name this @ ''::renameTable: This operation is not supported for this connection type.''))"

definition dropColumn :: "connection \<Rightarrow> js_value \<Rightarrow> js_value \<Rightarrow> js_result" where
  "dropColumn this field_arg options =
     Inl (Error (constructor_name this @ ''::dropColumn: This operation is not supported for this connection type.''))"

definition alterColumn :: "connection \<Rightarrow> js_value \<Rightarrow> js_value \<Rightarrow> js_value \<Rightarrow> js_result" where
  "alterColumn this field_arg newFieldAttributes options =
     Inl (Error (constructor_name this @ ''::alterColumn: This operation is not supported for this connection type.''))"

definition addColumn :: "connection \<Rightarrow> js_value \<Rightarrow> js_value \<Rightarrow> js_result" where
  "addColumn this field_arg options =
     Inl (Error (constructor_name this @ ''::addColumn: This operation is not supported for this connection type.''))"

definition addIndex :: "connection \<Rightarrow> js_value \<Rightarrow> js_value \<Rightarrow> js_value \<Rightarrow> js_result" where
  "addIndex this Model indexFields options =
     Inl (Error (constructor_name this @ ''::addIndex: This operation is not supported for this connection type.''))"

definition dropIndex :: "connection \<Rightarrow> js_value \<Rightarrow> js_value \<Rightarrow> js_value \<Rightarrow> js_result" where
  "dropIndex this Model indexFields options =
     Inl (Error (constructor_name this @ ''::addIndex: This operation is not supported for this connection type.''))"

section \<open>Data operations\<close>

definition insert_m :: "connection \<Rightarrow> js_value \<Rightarrow> js_value \<Rightarrow> js_value \<Rightarrow> js_result" where
  "insert_m this Model models options =
     Inl (Error (constructor_name this @ ''::insert: This operation is not supported for this connection type.''))"




definition destroyModels :: "connection \<Rightarrow> js_value \<Rightarrow> js_value \<Rightarrow> js_value \<Rightarrow> js_result" where
  "destroyModels this Model models options =
     Inl (Error (constructor_name this @ ''::destroyModels: This operation is not supported for this connection type.''))"



definition average :: "connection \<Rightarrow> js_value \<Rightarrow> js_value \<Rightarrow> js_value \<Rightarrow> js_result" where
  "average this queryEngine field options =
     Inl (Error (constructor_name this @ ''::average: This operation is not supported for this connection type.''))"

definition count :: "connection \<Rightarrow> js_value \<Rightarrow> js_value \<Rightarrow> js_value \<Rightarrow> js_result" where
  "count this queryEngine field options =
     Inl (Error (constructor_name this @ ''::count: This operation is not supported for this connection type.''))"

definition min_m :: "connection \<Rightarrow> js_value \<Rightarrow> js_value \<Rightarrow> js_value \<Rightarrow> js_result" where
  "min_m this queryEngine field options =
     Inl (Error (constructor_name this @ ''::min: This operation is not supported for this connection type.''))"

definition max_m :: "connection \<Rightarrow> js_value \<Rightarrow> js_value \<Rightarrow> js_value \<Rightarrow> js_result" where
  "max_m this queryEngine field options =
     Inl (Error (constructor_name this @ ''::max: This operation is not supported for this connection type.''))"

definition sum_m :: "connection \<Rightarrow> js_value \<Rightarrow> js_value \<Rightarrow> js_value \<Rightarrow> js_result" where
  "sum_m this queryEngine field options =
     Inl (Error (constructor_name this @ ''::sum: This operation is not supported for this connection type.''))"


definition exists :: "connection \<Rightarrow> js_value \<Rightarrow> js_value \<Rightarrow> js_result" where
  "exists this queryEngine options =
     Inl (Error (constructor_name this @ ''::exists: This operation is not supported for this connection type.''))"



text \<open>
  \<^verbatim>\<open>transaction(callback, options)\<close>: the callback is a function from the transaction's
  connection to the outcome of its body. The method throws without calling it.
\<close>

definition transaction ::
    "connection \<Rightarrow> (connection \<Rightarrow> js_result) \<Rightarrow> js_value \<Rightarrow> js_result" where
  "transaction this callback options =
     Inl (Error (constructor_name this @ ''::transaction: This operation is not supported for this connection type.''))"

section \<open>The streaming read\<close>

text \<open>
  \<^verbatim>\<open>async *select(...)\<close> is an async generator method. Calling it runs none of its body: it
  returns a generator object suspended at the start. The first \<^verbatim>\<open>next()\<close> runs the body, which
  here is a single \<^verbatim>\<open>throw\<close>; the generator is completed from then on, and every later
  \<^verbatim>\<open>next()\<close> answers \<^verbatim>\<open>{ value: undefined, done: true }\<close>.
\<close>

datatype generator_state = SuspendedStart | Completed

record select_generator =
  gen_this :: connection
  gen_queryEngine :: js_value
  gen_options :: js_value
  gen_state :: generator_state

datatype iterator_result = IteratorResult js_value bool

definition select ::
    "connection \<Rightarrow> js_value \<Rightarrow> js_value \<Rightarrow> js_error + select_generator" where
  "select this queryEngine options =
     Inr \<lparr>gen_this = this, gen_queryEngine = queryEngine, gen_options = options,
          gen_state = SuspendedStart\<rparr>"

definition select_next ::
    "select_generator \<Rightarrow> (js_error + iterator_result) \<times> select_generator" where
  "select_next g =
     (case gen_state g of
        SuspendedStart \<Rightarrow>
          (Inl (Error (constructor_name (gen_this g) @ ''::select: This operation is not supported for this connection type.'')),
           g\<lparr>gen_state := Completed\<rparr>)
      | Completed \<Rightarrow> (Inr (IteratorResult Undefined True), g))"

section \<open>Creating and dropping several tables\<close>

text \<open>
  The helpers of the \<^verbatim>\<open>nife\<close> package as \<^verbatim>\<open>createTables\<close> and \<^verbatim>\<open>dropTables\<close> use them:
  \<^verbatim>\<open>Nife.instanceOf(v, 'array', 'function')\<close> holds of arrays and of functions (a model class is
  one), and \<^verbatim>\<open>Nife.toArray(v)\<close> is \<open>v\<close> itself when it is an array and \<^verbatim>\<open>[v]\<close> otherwise.
\<close>

fun Nife_instanceOf_array_function :: "js_value \<Rightarrow> bool" where
  "Nife_instanceOf_array_function (Arr xs) = True"
| "Nife_instanceOf_array_function (ModelClass n) = True"
| "Nife_instanceOf_array_function v = False"

fun Nife_toArray :: "js_value \<Rightarrow> js_value list" where
  "Nife_toArray (Arr xs) = xs"
| "Nife_toArray v = [v]"

text \<open>
  \<^verbatim>\<open>Model.getModelName()\<close>: a model class answers with its name; on any other value of this
  model the property is \<^verbatim>\<open>undefined\<close> and the call raises a \<^verbatim>\<open>TypeError\<close>.
\<close>

fun getModelName :: "js_value \<Rightarrow> js_error + string" where
  "getModelName (ModelClass n) = Inr n"
| "getModelName v = Inl (TypeError ''Model.getModelName is not a function'')"

text \<open>
  \<^verbatim>\<open>modelMap[modelName] = Model\<close>: an existing key keeps its place among the stored
  properties, a new one goes last. The order in which keys are listed is \<open>Object_keys\<close>'s.
\<close>

fun set_prop :: "(string \<times> js_value) list \<Rightarrow> string \<Rightarrow> js_value \<Rightarrow> (string \<times> js_value) list" where
  "set_prop [] k v = [(k, v)]"
| "set_prop ((k', v') # kvs) k v =
     (if k' = k then (k, v) # kvs else (k', v') # set_prop kvs k v)"

text \<open>The first loop of both methods, which fills \<^verbatim>\<open>modelMap\<close> from the array of models.\<close>

fun collect_models ::
    "js_value list \<Rightarrow> (string \<times> js_value) list \<Rightarrow> js_error + (string \<times> js_value) list" where
  "collect_models [] modelMap = Inr modelMap"
| "collect_models (Model # Models) modelMap =
     (case getModelName Model of
        Inl e \<Rightarrow> Inl e
      | Inr modelName \<Rightarrow> collect_models Models (set_prop modelMap modelName Model))"

fun digit_char :: "nat \<Rightarrow> char" where
  "digit_char n = char_of (48 + n)"

fun decimal :: "nat \<Rightarrow> string" where
  "decimal n = (if n < 10 then [digit_char n] else decimal (n div 10) @ [digit_char (n mod 10)])"

text \<open>
  A key is an array index when it is the decimal writing, with no leading zero, of a number
  below \<open>2\<^sup>3\<^sup>2 - 1\<close>.
\<close>

definition is_digit :: "char \<Rightarrow> bool" where
  "is_digit c = (48 \<le> (of_char c :: nat) \<and> (of_char c :: nat) \<le> 57)"

definition parse_decimal :: "string \<Rightarrow> nat" where
  "parse_decimal k = foldl (\<lambda>n c. 10 * n + ((of_char c :: nat) - 48)) 0 k"

definition array_index :: "string \<Rightarrow> nat option" where
  "array_index k =
     (if k \<noteq> [] \<and> list_all is_digit k \<and> decimal (parse_decimal k) = k
         \<and> parse_decimal k < 4294967295
      then Some (parse_decimal k) else None)"

text \<open>
  \<^verbatim>\<open>Object.keys(v)\<close> for a truthy \<open>v\<close>. Of a plain object: first the keys that are array
  indices, in ascending numeric order, then the other keys in the order they were added. Of an
  array or a string: its indices. Of the other values: nothing.
\<close>

fun Object_keys :: "js_value \<Rightarrow> string list" where
  "Object_keys (Obj kvs) =
     map decimal (sort (List.map_filter array_index (map fst kvs)))
     @ filter (\<lambda>k. array_index k = None) (map fst kvs)"
| "Object_keys (Arr xs) = map decimal [0..<length xs]"
| "Object_keys (Str s) = map decimal [0..<length s]"
| "Object_keys v = []"

text \<open>
  The module neither declares nor imports \<^verbatim>\<open>Utils\<close>, and it runs in strict mode, so the
  expression \<^verbatim>\<open>Utils.sortModelNamesByCreationOrder(this, modelNames)\<close> raises a
  \<^verbatim>\<open>ReferenceError\<close> when \<^verbatim>\<open>Utils\<close> is evaluated.
\<close>

definition Utils_sortModelNamesByCreationOrder ::
    "connection \<Rightarrow> string list \<Rightarrow> js_error + string list" where
  "Utils_sortModelNamesByCreationOrder this modelNames =
     Inl (ReferenceError ''Utils is not defined'')"

text \<open>
  The second loop of both methods: one awaited call per model name, in the order given, the
  results pushed in that order; the first rejection ends the loop.
\<close>

fun call_each :: "(string \<Rightarrow> js_result) \<Rightarrow> string list \<Rightarrow> js_error + js_value list" where
  "call_each f [] = Inr []"
| "call_each f (modelName # modelNames) =
     (case f modelName of
        Inl e \<Rightarrow> Inl e
      | Inr r \<Rightarrow>
          (case call_each f modelNames of
             Inl e \<Rightarrow> Inl e
           | Inr rs \<Rightarrow> Inr (r # rs)))"

definition build_modelMap :: "js_value \<Rightarrow> js_error + js_value" where
  "build_modelMap Models =
     (if Nife_instanceOf_array_function Models
      then (case collect_models (filter truthy (Nife_toArray Models)) [] of
              Inl e \<Rightarrow> Inl e
            | Inr modelMap \<Rightarrow> Inr (Obj modelMap))
      else Inr Models)"

text \<open>
  \<^verbatim>\<open>this.dropTable\<close> and \<^verbatim>\<open>this.createTable\<close> are looked up on the instance, so a subclass
  may supply its own; the method called is the first argument here.
\<close>

definition dropTables ::
    "(connection \<Rightarrow> js_value \<Rightarrow> js_value \<Rightarrow> js_result) \<Rightarrow>
     connection \<Rightarrow> js_value \<Rightarrow> js_value \<Rightarrow> js_result" where
  "dropTables this_dropTable this Models options =
     (if \<not> truthy Models then Inr Undefined
      else
        (case build_modelMap Models of
           Inl e \<Rightarrow> Inl e
         | Inr modelMap \<Rightarrow>
             (case Utils_sortModelNamesByCreationOrder this (Object_keys modelMap) of
                Inl e \<Rightarrow> Inl e
              | Inr sortedModelNames \<Rightarrow>
                  (case call_each (\<lambda>modelName. this_dropTable this (get_prop modelMap modelName) options)
                          (rev sortedModelNames) of
                     Inl e \<Rightarrow> Inl e
                   | Inr results \<Rightarrow> Inr (Arr results)))))"

definition createTables ::
    "(connection \<Rightarrow> js_value \<Rightarrow> js_value \<Rightarrow> js_result) \<Rightarrow>
     connection \<Rightarrow> js_value \<Rightarrow> js_value \<Rightarrow> js_result" where
  "createTables this_createTable this Models options =
     (if \<not> truthy Models then Inr Undefined
      else
        (case build_modelMap Models of
           Inl e \<Rightarrow> Inl e
         | Inr modelMap \<Rightarrow>
             (case Utils_sortModelNamesByCreationOrder this (Object_keys modelMap) of
                Inl e \<Rightarrow> Inl e
              | Inr sortedModelNames \<Rightarrow>
                  (case call_each (\<lambda>modelName. this_createTable this (get_prop modelMap modelName) options)
                          sortedModelNames of
                     Inl e \<Rightarrow> Inl e
                   | Inr results \<Rightarrow> Inr (Arr results)))))"

text \<open>
  A \<^verbatim>\<open>Models\<close> argument on which the first loop cannot fail: it is truthy, and when it is an
  array or a function, every element that \<^verbatim>\<open>filter(Boolean)\<close> keeps is a model class. The
  empty array, an array with \<^verbatim>\<open>null\<close> entries beside model classes, and any truthy value that
  is neither an array nor a function are of this kind.
\<close>

fun is_model_class :: "js_value \<Rightarrow> bool" where
  "is_model_class (ModelClass n) = True"
| "is_model_class v = False"

definition Models_of_model_classes :: "js_value \<Rightarrow> bool" where
  "Models_of_model_classes Models =
     (truthy Models
      \<and> (if Nife_instanceOf_array_function Models
          then list_all is_model_class (filter truthy (Nife_toArray Models))
          else True))"

section \<open>Reading an error\<close>

text \<open>
  The kinds of failure the specification tells apart. The module builds every error it throws
  with \<^verbatim>\<open>new Error\<close> and one fixed sentence, so an unsupported operation is known by that
  sentence; the module has no error for a connection that was not started.
\<close>

datatype error_kind = UnsupportedOperation | NotStarted | Unclassified

definition not_supported_text :: string where
  "not_supported_text = ''This operation is not supported for this connection type.''"

fun spec_error_kind :: "js_error \<Rightarrow> error_kind" where
  "spec_error_kind (Error m) =
     (if suffix not_supported_text m then UnsupportedOperation else Unclassified)"
| "spec_error_kind (ReferenceError m) = Unclassified"
| "spec_error_kind (TypeError m) = Unclassified"

text \<open>\<open>mentions s sub\<close>: the text \<open>sub\<close> occurs in \<open>s\<close>.\<close>

fun mentions :: "string \<Rightarrow> string \<Rightarrow> bool" where
  "mentions [] sub = (sub = [])"
| "mentions (c # cs) sub = (prefix sub (c # cs) \<or> mentions cs sub)"

text \<open>
  An error names an operation when its message holds \<^verbatim>\<open>::operation:\<close>, the form every message
  of the module has, and it names the connection type when it holds the constructor's name.
\<close>

definition names_operation :: "string \<Rightarrow> js_error \<Rightarrow> bool" where
  "names_operation operation e = mentions (message e) (''::'' @ operation @ '':'')"

definition names_connection_type :: "connection \<Rightarrow> js_error \<Rightarrow> bool" where
  "names_connection_type this e = mentions (message e) (constructor_name this)"

text \<open>
  The error every unsupported method is meant to report for the operation \<open>operation\<close>:
  the constructor's name, \<^verbatim>\<open>::\<close>, the operation, and the fixed sentence.
\<close>

definition not_supported_error :: "connection \<Rightarrow> string \<Rightarrow> js_error" where
  "not_supported_error this operation =
     Error (constructor_name this @ ''::'' @ operation @ '': This operation is not supported for this connection type.'')"

text \<open>A connection on which \<^verbatim>\<open>start()\<close> has run once, in a runtime with no client before it.\<close>

definition started_connection :: connection where
  "started_connection = snd (start (\<lparr>http_clients = []\<rparr>, new_SOLRConnection Undefined))"

section \<open>Lifecycle\<close>

lemma start_holds_fresh_client:
  "httpClient (snd (start (rt, this))) = Some (length (http_clients rt))"
  by (simp add: start_def new_HTTPClient_def)

lemma start_records_client:
  "http_clients (fst (start (rt, this))) = http_clients rt @ [length (http_clients rt)]"
  by (simp add: start_def new_HTTPClient_def)

lemma stop_clears_client: "httpClient (snd (stop s)) = None"
  by (cases s) (simp add: stop_def)

lemma stop_keeps_runtime: "fst (stop s) = fst s"
  by (cases s) (simp add: stop_def)

text \<open>
  Claim C3. A new connection is stopped. \<^verbatim>\<open>start()\<close> constructs one more client, which
  joins the clients constructed so far, and the connection holds that very client as its
  transport handle, so \<^verbatim>\<open>isStarted()\<close> is true. After \<^verbatim>\<open>stop()\<close> the connection holds no
  handle and \<^verbatim>\<open>isStarted()\<close> is false again; \<^verbatim>\<open>stop()\<close> constructs nothing.
\<close>

theorem lifecycle_stopped_started_stopped:
  "\<not> isStarted (new_SOLRConnection options)
   \<and> httpClient (new_SOLRConnection options) = None
   \<and> http_clients (fst (start (rt, this))) = http_clients rt @ [length (http_clients rt)]
   \<and> length (http_clients (fst (start (rt, this)))) = Suc (length (http_clients rt))
   \<and> httpClient (snd (start (rt, this))) = Some (length (http_clients rt))
   \<and> httpClient (snd (start (rt, this))) = Some (last (http_clients (fst (start (rt, this)))))
   \<and> length (http_clients rt) \<in> set (http_clients (fst (start (rt, this))))
   \<and> (\<exists>h. httpClient (snd (start (rt, this))) = Some h)
   \<and> isStarted (snd (start (rt, this)))
   \<and> httpClient (snd (stop (start (rt, this)))) = None
   \<and> \<not> isStarted (snd (stop (start (rt, this))))
   \<and> fst (stop (start (rt, this))) = fst (start (rt, this))"
  by (simp add: isStarted_def new_SOLRConnection_def start_holds_fresh_client
      start_records_client stop_clears_client stop_keeps_runtime)

text \<open>
  Claim C7. \<^verbatim>\<open>start()\<close> is not idempotent: a second \<^verbatim>\<open>start()\<close> with no \<^verbatim>\<open>stop()\<close> in
  between constructs a second client, distinct from the first; the connection then holds the
  second one, and the first one is still among the constructed clients although the connection
  no longer refers to it.
\<close>

theorem start_twice_leaks_first_client:
  "httpClient (snd (start (rt, this))) = Some (length (http_clients rt))
   \<and> httpClient (snd (start (start (rt, this)))) = Some (Suc (length (http_clients rt)))
   \<and> httpClient (snd (start (start (rt, this)))) \<noteq> httpClient (snd (start (rt, this)))
   \<and> http_clients (fst (start (start (rt, this))))
       = http_clients rt @ [length (http_clients rt), Suc (length (http_clients rt))]
   \<and> length (http_clients (fst (start (start (rt, this))))) = length (http_clients rt) + 2"
proof -
  obtain rt1 c1 where s1: "start (rt, this) = (rt1, c1)"
    by (cases "start (rt, this)")
  have c1: "httpClient c1 = Some (length (http_clients rt))"
    using start_holds_fresh_client [of rt this] s1 by simp
  have rt1: "http_clients rt1 = http_clients rt @ [length (http_clients rt)]"
    using start_records_client [of rt this] s1 by simp
  have c2: "httpClient (snd (start (rt1, c1))) = Some (Suc (length (http_clients rt)))"
    using start_holds_fresh_client [of rt1 c1] rt1 by simp
  have rt2: "http_clients (fst (start (rt1, c1)))
      = http_clients rt @ [length (http_clients rt), Suc (length (http_clients rt))]"
    using start_records_client [of rt1 c1] rt1 by simp
  show ?thesis
    using s1 c1 c2 rt2 by simp
qed

section \<open>Reading the errors of the module\<close>

lemma mentions_prefix: "prefix sub s \<Longrightarrow> mentions s sub"
  by (cases s) auto

lemma mentions_append: "mentions (a @ b @ c) b"
proof (induction a)
  case Nil
  show ?case by (simp add: mentions_prefix)
next
  case (Cons x a)
  then show ?case by simp
qed

lemma not_supported_error_kind:
  "spec_error_kind (not_supported_error this operation) = UnsupportedOperation"
proof -
  have "suffix not_supported_text
          ((constructor_name this @ ''::'' @ operation @ '': '') @ not_supported_text)"
    by (rule suffix_appendI) simp
  then show ?thesis
    by (simp add: not_supported_error_def not_supported_text_def)
qed

lemma not_supported_error_names_operation:
  "names_operation operation (not_supported_error this operation)"
  unfolding names_operation_def not_supported_error_def message.simps
  using mentions_append [of "constructor_name this" "''::'' @ operation @ '':''"
      "'' This operation is not supported for this connection type.''"]
  by simp

lemma not_supported_error_names_connection_type:
  "names_connection_type this (not_supported_error this operation)"
  unfolding names_connection_type_def not_supported_error_def message.simps
  by (rule mentions_prefix) simp

lemma started_connection_isStarted: "isStarted started_connection"
  by (simp add: started_connection_def isStarted_def start_holds_fresh_client)

lemma started_connection_name: "constructor_name started_connection = ''SOLRConnection''"
  by (simp add: started_connection_def start_def new_HTTPClient_def new_SOLRConnection_def)

section \<open>Schema operations\<close>

text \<open>
  Eight of the ten schema operations reject with the unsupported-operation error that names
  the operation called and the connection type.
\<close>

lemma schema_operations_named:
  "createTable this Model options = Inl (not_supported_error this ''createTable'')"
  "dropTable this Model options = Inl (not_supported_error this ''dropTable'')"
  "addColumn this field_arg options = Inl (not_supported_error this ''addColumn'')"
  "dropColumn this field_arg options = Inl (not_supported_error this ''dropColumn'')"
  "addIndex this Model indexFields options = Inl (not_supported_error this ''addIndex'')"
  "defineTable this = Inl (not_supported_error this ''defineTable'')"
  "defineConstraints this = Inl (not_supported_error this ''defineConstraints'')"
  "defineIndexes this = Inl (not_supported_error this ''defineIndexes'')"
  by (simp_all add: not_supported_error_def createTable_def dropTable_def addColumn_def
      dropColumn_def addIndex_def defineTable_def defineConstraints_def defineIndexes_def)

text \<open>
  Claim C1. Each schema operation is to reject with an unsupported-operation error whose
  message names the operation that was called. \<^verbatim>\<open>dropIndex\<close> and \<^verbatim>\<open>alterTable\<close> reject with
  an unsupported-operation error, but the message of the first names \<^verbatim>\<open>addIndex\<close> and the
  message of the second names \<^verbatim>\<open>renameTable\<close>; neither names the operation called.
\<close>

theorem dropIndex_alterTable_name_another_operation:
  "dropIndex (new_SOLRConnection Undefined) (ModelClass ''User'') (Arr [Str ''email'']) Undefined
     = Inl (Error ''SOLRConnection::addIndex: This operation is not supported for this connection type.'')
   \<and> dropIndex (new_SOLRConnection Undefined) (ModelClass ''User'') (Arr [Str ''email'']) Undefined
     = addIndex (new_SOLRConnection Undefined) (ModelClass ''User'') (Arr [Str ''email'']) Undefined
   \<and> \<not> names_operation ''dropIndex''
        (Error ''SOLRConnection::addIndex: This operation is not supported for this connection type.'')
   \<and> alterTable (new_SOLRConnection Undefined) (ModelClass ''User'') (Obj []) Undefined
     = Inl (Error ''SOLRConnection::renameTable: This operation is not supported for this connection type.'')
   \<and> \<not> names_operation ''alterTable''
        (Error ''SOLRConnection::renameTable: This operation is not supported for this connection type.'')"
  by (simp add: dropIndex_def addIndex_def alterTable_def new_SOLRConnection_def
      names_operation_def)

section \<open>Data operations\<close>





text \<open>
  Claim C4. With \<^verbatim>\<open>null\<close> or \<^verbatim>\<open>undefined\<close> records, \<^verbatim>\<open>destroyModels\<close> is to return
  silently, and to clear the whole bucket when \<^verbatim>\<open>{truncate: true}\<close> is given; the comment
  above the method says the same. The method does neither: on a started connection,
  \<^verbatim>\<open>destroyModels(User, null, {})\<close> rejects with the unsupported-operation error, and so
  does \<^verbatim>\<open>destroyModels(User, null, {truncate: true})\<close>.
\<close>

theorem destroyModels_null_rejects:
  "isStarted started_connection
   \<and> destroyModels started_connection (ModelClass ''User'') Null (Obj [])
     = Inl (Error ''SOLRConnection::destroyModels: This operation is not supported for this connection type.'')
   \<and> destroyModels started_connection (ModelClass ''User'') Null (Obj [(''truncate'', Bool True)])
     = Inl (Error ''SOLRConnection::destroyModels: This operation is not supported for this connection type.'')"
  by (simp add: started_connection_isStarted destroyModels_def started_connection_name)

text \<open>
  Claim C5. The bulk operations are to split the records into batches of \<^verbatim>\<open>batchSize\<close> and
  to return the results in input order; the comment above \<^verbatim>\<open>insert\<close> promises an array for
  an array and documents \<^verbatim>\<open>batchSize\<close>. The method does not: inserting 1200 records with
  \<^verbatim>\<open>batchSize: 500\<close> on a started connection returns no array and rejects with the
  unsupported-operation error.
\<close>

theorem insert_1200_rejects:
  "isStarted started_connection
   \<and> insert_m started_connection (ModelClass ''User'')
        (Arr (replicate 1200 (Obj [(''name'', Str ''Bob'')]))) (Obj [(''batchSize'', Num 500)])
     = Inl (Error ''SOLRConnection::insert: This operation is not supported for this connection type.'')"
  by (simp add: started_connection_isStarted insert_m_def started_connection_name)

text \<open>
  Claim C6. \<^verbatim>\<open>transaction(callback, options)\<close> takes the first of the two ways the
  specification allows: it rejects with the unsupported-operation error that names
  \<^verbatim>\<open>transaction\<close>, whatever the callback, and so never returns a value as if the callback
  had run atomically.
\<close>

theorem transaction_rejects_unsupported:
  "transaction this callback options = Inl (not_supported_error this ''transaction'')
   \<and> spec_error_kind (not_supported_error this ''transaction'') = UnsupportedOperation
   \<and> (\<forall>v. transaction this callback options \<noteq> Inr v)"
proof -
  have rejects: "transaction this callback options
      = Inl (not_supported_error this ''transaction'')"
    by (simp add: transaction_def not_supported_error_def)
  show ?thesis
    by (simp add: rejects not_supported_error_kind)
qed

section \<open>The streaming read\<close>

text \<open>
  Claim C10. Calling \<^verbatim>\<open>select(query, options)\<close> never throws: it returns a generator
  suspended at its start. The unsupported-operation error is raised by the first pull, which
  completes the generator; a later pull reports the end of the sequence.
\<close>

theorem select_throws_on_first_pull_only:
  "select this queryEngine options
     = Inr \<lparr>gen_this = this, gen_queryEngine = queryEngine, gen_options = options,
            gen_state = SuspendedStart\<rparr>
   \<and> (\<forall>e. select this queryEngine options \<noteq> Inl e)
   \<and> (\<exists>g g'. select this queryEngine options = Inr g
         \<and> select_next g = (Inl (not_supported_error this ''select''), g')
         \<and> gen_state g' = Completed
         \<and> fst (select_next g') = Inr (IteratorResult Undefined True))"
  by (simp add: select_def select_next_def not_supported_error_def)

section \<open>Creating and dropping several tables\<close>

lemma collect_models_classes:
  "list_all is_model_class xs \<Longrightarrow> \<exists>m. collect_models xs acc = Inr m"
proof (induction xs arbitrary: acc)
  case Nil
  show ?case by simp
next
  case (Cons x xs)
  then obtain n where x: "x = ModelClass n"
    by (cases x) auto
  from Cons show ?case by (simp add: x)
qed

lemma filter_truthy_classes:
  "list_all is_model_class xs \<Longrightarrow> list_all is_model_class (filter truthy xs)"
  by (induction xs) auto

lemma collect_models_not_class:
  "\<not> list_all is_model_class xs \<Longrightarrow>
   collect_models xs acc = Inl (TypeError ''Model.getModelName is not a function'')"
proof (induction xs arbitrary: acc)
  case Nil
  then show ?case by simp
next
  case (Cons x xs)
  show ?case
  proof (cases "is_model_class x")
    case True
    then obtain n where x: "x = ModelClass n"
      by (cases x) auto
    from Cons True show ?thesis by (simp add: x)
  next
    case False
    then show ?thesis by (cases x) auto
  qed
qed

lemma Models_of_model_classes_modelMap:
  assumes "Models_of_model_classes Models"
  shows "\<exists>m. build_modelMap Models = Inr m"
proof (cases "Nife_instanceOf_array_function Models")
  case True
  with assms have "list_all is_model_class (filter truthy (Nife_toArray Models))"
    by (simp add: Models_of_model_classes_def)
  then obtain m where "collect_models (filter truthy (Nife_toArray Models)) [] = Inr m"
    using collect_models_classes by blast
  with True show ?thesis by (simp add: build_modelMap_def)
next
  case False
  then show ?thesis by (simp add: build_modelMap_def)
qed

text \<open>
  When the argument is an array or a function and \<^verbatim>\<open>filter(Boolean)\<close> keeps an element that
  is no model class, the first loop throws the \<^verbatim>\<open>TypeError\<close> of \<^verbatim>\<open>getModelName\<close>, and
  \<^verbatim>\<open>Utils\<close> is never reached.
\<close>

lemma createTables_dropTables_TypeError:
  assumes "Nife_instanceOf_array_function Models"
    and "\<not> list_all is_model_class (filter truthy (Nife_toArray Models))"
  shows "createTables this_createTable this Models options
      = Inl (TypeError ''Model.getModelName is not a function'')"
    and "dropTables this_dropTable this Models options
      = Inl (TypeError ''Model.getModelName is not a function'')"
proof -
  from assms(1) have t: "truthy Models"
    by (cases Models) auto
  have m: "build_modelMap Models = Inl (TypeError ''Model.getModelName is not a function'')"
    using assms by (simp add: build_modelMap_def collect_models_not_class)
  show "createTables this_createTable this Models options
      = Inl (TypeError ''Model.getModelName is not a function'')"
    by (simp add: createTables_def t m)
  show "dropTables this_dropTable this Models options
      = Inl (TypeError ''Model.getModelName is not a function'')"
    by (simp add: dropTables_def t m)
qed

text \<open>
  Claim C9, as stated, fails: \<^verbatim>\<open>createTables([{}])\<close> and \<^verbatim>\<open>dropTables([{}])\<close> are called
  with a non-empty argument and throw a \<^verbatim>\<open>TypeError\<close>, not the \<^verbatim>\<open>ReferenceError\<close>.
\<close>

theorem createTables_plain_object_counterexample:
  "createTables createTable (new_SOLRConnection Undefined) (Arr [Obj []]) Undefined
     = Inl (TypeError ''Model.getModelName is not a function'')
   \<and> dropTables dropTable (new_SOLRConnection Undefined) (Arr [Obj []]) Undefined
     = Inl (TypeError ''Model.getModelName is not a function'')
   \<and> createTables createTable (new_SOLRConnection Undefined) (Arr [Obj []]) Undefined
     \<noteq> Inl (ReferenceError ''Utils is not defined'')
   \<and> dropTables dropTable (new_SOLRConnection Undefined) (Arr [Obj []]) Undefined
     \<noteq> Inl (ReferenceError ''Utils is not defined'')"
  by (simp add: createTables_def dropTables_def build_modelMap_def)

text \<open>
  Claim C9, amended. \<^verbatim>\<open>createTables\<close> and \<^verbatim>\<open>dropTables\<close> called with \<^verbatim>\<open>null\<close> or
  \<^verbatim>\<open>undefined\<close> return \<^verbatim>\<open>undefined\<close> at once. Called with a truthy \<^verbatim>\<open>Models\<close> argument
  in which every element that \<^verbatim>\<open>filter(Boolean)\<close> keeps is a model class, they throw the
  \<^verbatim>\<open>ReferenceError\<close> for \<^verbatim>\<open>Utils\<close>, and they do so whatever \<^verbatim>\<open>createTable\<close> and
  \<^verbatim>\<open>dropTable\<close> would do: neither is called.
\<close>

theorem createTables_dropTables_outcome:
  assumes "Models_of_model_classes Models"
  shows "createTables this_createTable this Null options = Inr Undefined
    \<and> createTables this_createTable this Undefined options = Inr Undefined
    \<and> dropTables this_dropTable this Null options = Inr Undefined
    \<and> dropTables this_dropTable this Undefined options = Inr Undefined
    \<and> createTables this_createTable this Models options
        = Inl (ReferenceError ''Utils is not defined'')
    \<and> dropTables this_dropTable this Models options
        = Inl (ReferenceError ''Utils is not defined'')"
proof -
  from assms have t: "truthy Models"
    by (simp add: Models_of_model_classes_def)
  from assms obtain m where m: "build_modelMap Models = Inr m"
    using Models_of_model_classes_modelMap by blast
  show ?thesis
    by (simp add: createTables_def dropTables_def t m Utils_sortModelNamesByCreationOrder_def)
qed

theorem createTables_dropTables_outcome_witness:
  "Models_of_model_classes (Arr [Null, ModelClass ''User'', ModelClass ''Role''])
   \<and> createTables createTable (new_SOLRConnection Undefined) Null Undefined = Inr Undefined
   \<and> createTables createTable (new_SOLRConnection Undefined)
        (Arr [Null, ModelClass ''User'', ModelClass ''Role'']) Undefined
     = Inl (ReferenceError ''Utils is not defined'')
   \<and> dropTables dropTable (new_SOLRConnection Undefined)
        (Arr [Null, ModelClass ''User'', ModelClass ''Role'']) Undefined
     = Inl (ReferenceError ''Utils is not defined'')"
proof -
  have h: "Models_of_model_classes (Arr [Null, ModelClass ''User'', ModelClass ''Role''])"
    by (simp add: Models_of_model_classes_def)
  show ?thesis
    using h createTables_dropTables_outcome [OF h, of createTable "new_SOLRConnection Undefined"
        Undefined dropTable]
    by simp
qed

end
